theory Spec2Isabelle
  imports Complex_Main
begin

section \<open>Values and bodies\<close>

text \<open>
  Numbers are modelled as exact reals: the finite values of a JavaScript number, without
  rounding. The model has no NaN; the two places where the code would compute one from
  finite operands (a remainder by zero, the quotient 0/0 of a zero centre distance) are
  written out as outcomes of their own below.

  A dynamically typed argument is a \<open>jsval\<close>; \<open>JBlock r\<close> is a reference to the
  Block object stored at address \<open>r\<close>.
\<close>

datatype jsval =
    JUndefined
  | JNull
  | JBool bool
  | JNumber real
  | JString string
  | JBlock nat
  | JObject

fun is_number :: "jsval \<Rightarrow> bool" where
  "is_number (JNumber _) = True"
| "is_number _ = False"

datatype shape = Square | Circle

text \<open>
  The fields of class Block. The field names carry the prefix \<open>b_\<close>, since \<open>x\<close>, \<open>y\<close>,
  \<open>id\<close> and \<open>size\<close> are needed as variables and HOL constants.
\<close>

record Block =
  b_id :: string
  b_shape :: shape
  b_x :: real
  b_y :: real
  b_size :: real
  b_scale_x :: real
  b_scale_y :: real
  b_borderWidth :: real
  b_borderColor :: string
  b_level :: real
  b_opaque :: real

text \<open>
  The options object of the constructor: \<open>None\<close> is an absent (undefined) property.
\<close>

record options =
  o_id :: "string option"
  o_shape :: "string option"
  o_x :: "real option"
  o_y :: "real option"
  o_size :: "real option"
  o_scale_x :: "real option"
  o_scale_y :: "real option"
  o_borderWidth :: "real option"
  o_borderColor :: "string option"
  o_level :: "real option"
  o_opaque :: "real option"

text \<open>\<open>v || d\<close> on an optional number: undefined and 0 are falsy.\<close>

definition num_or :: "real option \<Rightarrow> real \<Rightarrow> real" where
  "num_or v d = (case v of None \<Rightarrow> d | Some n \<Rightarrow> if n = 0 then d else n)"

text \<open>\<open>v || d\<close> on an optional string: undefined and the empty string are falsy.\<close>

definition str_or :: "string option \<Rightarrow> string \<Rightarrow> string" where
  "str_or v d = (case v of None \<Rightarrow> d | Some s \<Rightarrow> if s = [] then d else s)"

text \<open>
  Block.constructor. The generated identifier (from the clock and the random source)
  is the parameter \<open>generated\<close>. A shape other than 'square' and 'circle' becomes
  'square'.
\<close>

definition Block_new :: "string \<Rightarrow> options \<Rightarrow> Block" where
  "Block_new generated opts =
     \<lparr> b_id = str_or (o_id opts) generated,
       b_shape = (if str_or (o_shape opts) ''square'' = ''circle'' then Circle else Square),
       b_x = num_or (o_x opts) 0,
       b_y = num_or (o_y opts) 0,
       b_size = num_or (o_size opts) 50,
       b_scale_x = (case o_scale_x opts of None \<Rightarrow> 0 | Some v \<Rightarrow> v),
       b_scale_y = (case o_scale_y opts of None \<Rightarrow> 0 | Some v \<Rightarrow> v),
       b_borderWidth = num_or (o_borderWidth opts) 0,
       b_borderColor = str_or (o_borderColor opts) ''black'',
       b_level = num_or (o_level opts) 0,
       b_opaque = (case o_opaque opts of None \<Rightarrow> 100 | Some v \<Rightarrow> max 0 (min 100 v)) \<rparr>"

definition actualWidth :: "Block \<Rightarrow> real" where
  "actualWidth b =
     (if b_shape b = Square then b_size b * (1 + b_scale_x b / 100)
      else 2 * b_size b * (1 + b_scale_x b / 100))"

definition actualHeight :: "Block \<Rightarrow> real" where
  "actualHeight b =
     (if b_shape b = Square then b_size b * (1 + b_scale_y b / 100)
      else 2 * b_size b * (1 + b_scale_y b / 100))"

definition radiusX :: "Block \<Rightarrow> real" where
  "radiusX b = (if b_shape b = Circle then b_size b * (1 + b_scale_x b / 100) else 0)"

definition radiusY :: "Block \<Rightarrow> real" where
  "radiusY b = (if b_shape b = Circle then b_size b * (1 + b_scale_y b / 100) else 0)"

text \<open>The result of getBounds.\<close>

record bounds =
  minX :: real
  minY :: real
  maxX :: real
  maxY :: real

definition getBounds :: "Block \<Rightarrow> bounds" where
  "getBounds b =
     (if b_shape b = Square then
        \<lparr> minX = b_x b, minY = b_y b,
          maxX = b_x b + actualWidth b, maxY = b_y b + actualHeight b \<rparr>
      else
        \<lparr> minX = b_x b - radiusX b, minY = b_y b - radiusY b,
          maxX = b_x b + radiusX b, maxY = b_y b + radiusY b \<rparr>)"

definition moveTo :: "real \<Rightarrow> real \<Rightarrow> Block \<Rightarrow> Block" where
  "moveTo newX newY b = b\<lparr>b_x := newX, b_y := newY\<rparr>"

definition moveBy :: "real \<Rightarrow> real \<Rightarrow> Block \<Rightarrow> Block" where
  "moveBy deltaX deltaY b = b\<lparr>b_x := b_x b + deltaX, b_y := b_y b + deltaY\<rparr>"

text \<open>Block.resize: a number that is at least 0 is stored, anything else is ignored.\<close>

fun resize :: "jsval \<Rightarrow> Block \<Rightarrow> Block" where
  "resize (JNumber newSize) b = (if newSize \<ge> 0 then b\<lparr>b_size := newSize\<rparr> else b)"
| "resize _ b = b"


section \<open>The animation state\<close>

datatype boundary = Front | Back | Pass | Bounce

datatype collision = CStop | CBounce | CPass

text \<open>
  moveBlock replaces a boundary argument outside 'front', 'back', 'pass', 'bounce' by
  'pass', and a collision argument outside 'stop', 'bounce', 'pass' by 'pass'.
\<close>

definition parse_boundary :: "string \<Rightarrow> boundary" where
  "parse_boundary s =
     (if s = ''front'' then Front else if s = ''back'' then Back
      else if s = ''bounce'' then Bounce else Pass)"

definition parse_collision :: "string \<Rightarrow> collision" where
  "parse_collision s =
     (if s = ''stop'' then CStop else if s = ''bounce'' then CBounce else CPass)"

text \<open>
  The object literal \<open>animationData\<close> (fields prefixed \<open>r_\<close>); \<open>r_blockObject\<close> is the
  address of the Block. Its field \<open>owningComponent\<close>, which nothing reads, is left
  out.
\<close>

record AnimationRecord =
  r_animationFrameId :: nat
  r_blockId :: string
  r_blockObject :: nat
  r_angle :: real
  r_pps :: real
  r_lastTime :: real
  r_currentSpeedX :: real
  r_currentSpeedY :: real

text \<open>
  The variables the arrow function \<open>animate\<close> closes over (fields prefixed \<open>c_\<close>):
  the parameters of the moveBlock call, and its locals \<open>blockId\<close>, \<open>currentSpeedX\<close>,
  \<open>currentSpeedY\<close>, \<open>lastTime\<close>, \<open>screenWidth\<close>, \<open>screenHeight\<close> and \<open>animationData\<close>
  (the address of the record object this call created). \<open>c_allBlocks\<close> is the roster,
  a list of Block addresses, taken as it is at the call. The boundary and collision
  policies are held as moveBlock normalised them. The owning component is not held:
  moveBlock has checked it, and its only use, a call of \<open>updateBlockVisuals\<close>, is
  recorded in the state. The variables \<open>currentSpeedX\<close>, \<open>currentSpeedY\<close> and
  \<open>lastTime\<close> are the ones a tick assigns.
\<close>

record closure =
  c_blockObject :: nat
  c_blockId :: string
  c_boundary :: boundary
  c_collision :: collision
  c_allBlocks :: "nat list"
  c_currentSpeedX :: real
  c_currentSpeedY :: real
  c_lastTime :: real
  c_screenWidth :: real
  c_screenHeight :: real
  c_animationData :: nat

text \<open>
  Everything a call can read or change: the Block objects and the record objects (two
  stores, by address), the map \<open>activeBlockAnimations\<close> from block id to record
  address, the callbacks pending in requestAnimationFrame (by frame id, each with the
  closure it will run), the pending timeouts (delay and the block id to stop), the
  console, the calls made to \<open>updateBlockVisuals\<close> (block id and the Block as passed),
  the window's extents and the clock.
\<close>

record world =
  blocks :: "nat \<Rightarrow> Block"
  records :: "nat \<Rightarrow> AnimationRecord"
  nextRecord :: nat
  activeBlockAnimations :: "string \<rightharpoonup> nat"
  frames :: "nat \<rightharpoonup> closure"
  nextFrame :: nat
  timeouts :: "(real \<times> string) list"
  console :: "string list"
  visuals :: "(string \<times> Block) list"
  innerWidth :: real
  innerHeight :: real
  performanceNow :: real

text \<open>
  How a tick ends: it returns (\<open>Done\<close>), it throws a TypeError (with the state at the
  throw), or it computes a NaN from finite operands, where this model stops (the code
  itself goes on with NaN coordinates).
\<close>

datatype 'a result = Done 'a | TypeError world | NotANumber

definition set_block :: "nat \<Rightarrow> (Block \<Rightarrow> Block) \<Rightarrow> world \<Rightarrow> world" where
  "set_block a f w = w\<lparr>blocks := (blocks w)(a := f (blocks w a))\<rparr>"

definition set_record :: "nat \<Rightarrow> (AnimationRecord \<Rightarrow> AnimationRecord) \<Rightarrow> world \<Rightarrow> world" where
  "set_record a f w = w\<lparr>records := (records w)(a := f (records w a))\<rparr>"

definition requestAnimationFrame :: "closure \<Rightarrow> world \<Rightarrow> nat \<times> world" where
  "requestAnimationFrame c w =
     (nextFrame w, w\<lparr>frames := (frames w)(nextFrame w \<mapsto> c), nextFrame := Suc (nextFrame w)\<rparr>)"

definition cancelAnimationFrame :: "nat \<Rightarrow> world \<Rightarrow> world" where
  "cancelAnimationFrame fid w = w\<lparr>frames := (frames w)(fid := None)\<rparr>"

definition updateBlockVisuals :: "string \<Rightarrow> Block \<Rightarrow> world \<Rightarrow> world" where
  "updateBlockVisuals bid blockData w = w\<lparr>visuals := visuals w @ [(bid, blockData)]\<rparr>"

definition stopMovingBlock :: "string \<Rightarrow> world \<Rightarrow> world" where
  "stopMovingBlock bid w =
     (case activeBlockAnimations w bid of
        None \<Rightarrow> w
      | Some r \<Rightarrow>
          (cancelAnimationFrame (r_animationFrameId (records w r)) w)
            \<lparr>activeBlockAnimations := (activeBlockAnimations w)(bid := None)\<rparr>)"

text \<open>
  Two calls the tick makes with a Block object at hand:
  \<open>owningComponent.updateBlockVisuals(block.id, block)\<close> and
  \<open>stopMovingBlock(block.id)\<close>, for the Block at address \<open>a\<close>.
\<close>

definition updateVisualsOf :: "nat \<Rightarrow> world \<Rightarrow> world" where
  "updateVisualsOf a w = updateBlockVisuals (b_id (blocks w a)) (blocks w a) w"

definition stopMovingBlockOf :: "nat \<Rightarrow> world \<Rightarrow> world" where
  "stopMovingBlockOf a w = stopMovingBlock (b_id (blocks w a)) w"

section \<open>Arithmetic helpers\<close>

text \<open>
  The remainder operator \<open>%\<close> on finite operands with a divisor other than 0: the
  quotient is truncated towards zero, so the result has the sign of the dividend.
\<close>

definition trunc :: "real \<Rightarrow> int" where
  "trunc r = (if r \<ge> 0 then \<lfloor>r\<rfloor> else \<lceil>r\<rceil>)"

definition js_rem :: "real \<Rightarrow> real \<Rightarrow> real" where
  "js_rem a n = a - n * of_int (trunc (a / n))"

text \<open>positiveModulo; \<open>None\<close> where the code computes NaN (\<open>n\<close> is 0).\<close>

definition positiveModulo :: "real \<Rightarrow> real \<Rightarrow> real option" where
  "positiveModulo i n = (if n = 0 then None else Some (js_rem (js_rem i n + n) n))"

text \<open>Math.atan2 on finite operands (the two zeros are not told apart).\<close>

definition atan2 :: "real \<Rightarrow> real \<Rightarrow> real" where
  "atan2 y x =
     (if x > 0 then arctan (y / x)
      else if x < 0 \<and> y \<ge> 0 then arctan (y / x) + pi
      else if x < 0 then arctan (y / x) - pi
      else if y > 0 then pi / 2
      else if y < 0 then - (pi / 2)
      else 0)"


section \<open>Boundary logic of a tick\<close>

text \<open>
  The four branches of the boundary logic of \<open>animate\<close>, each on the Block after the
  integration step. 'front' and 'back' return the Block and \<open>stopAnimation\<close>; 'bounce'
  returns the Block, the two speeds and \<open>bounced\<close>; 'pass' returns the Block, or
  \<open>None\<close> where a world extent is 0 and the code computes NaN.
\<close>

definition boundary_front :: "real \<Rightarrow> real \<Rightarrow> real \<Rightarrow> real \<Rightarrow> Block \<Rightarrow> Block \<times> bool" where
  "boundary_front screenWidth screenHeight currentSpeedX currentSpeedY b =
     (if b_shape b = Square then
        (let (b1, s1) =
           (if currentSpeedX > 0 \<and> b_x b + actualWidth b \<ge> screenWidth
              then (b\<lparr>b_x := screenWidth - actualWidth b\<rparr>, True)
            else if currentSpeedX < 0 \<and> b_x b \<le> 0 then (b\<lparr>b_x := 0\<rparr>, True)
            else (b, False))
         in if currentSpeedY > 0 \<and> b_y b1 + actualHeight b1 \<ge> screenHeight
              then (b1\<lparr>b_y := screenHeight - actualHeight b1\<rparr>, True)
            else if currentSpeedY < 0 \<and> b_y b1 \<le> 0 then (b1\<lparr>b_y := 0\<rparr>, True)
            else (b1, s1))
      else
        (let (b1, s1) =
           (if currentSpeedX > 0 \<and> b_x b + radiusX b \<ge> screenWidth
              then (b\<lparr>b_x := screenWidth - radiusX b\<rparr>, True)
            else if currentSpeedX < 0 \<and> b_x b - radiusX b \<le> 0
              then (b\<lparr>b_x := radiusX b\<rparr>, True)
            else (b, False))
         in if currentSpeedY > 0 \<and> b_y b1 + radiusY b1 \<ge> screenHeight
              then (b1\<lparr>b_y := screenHeight - radiusY b1\<rparr>, True)
            else if currentSpeedY < 0 \<and> b_y b1 - radiusY b1 \<le> 0
              then (b1\<lparr>b_y := radiusY b1\<rparr>, True)
            else (b1, s1)))"

definition boundary_back :: "real \<Rightarrow> real \<Rightarrow> real \<Rightarrow> real \<Rightarrow> Block \<Rightarrow> Block \<times> bool" where
  "boundary_back screenWidth screenHeight currentSpeedX currentSpeedY b =
     (if b_shape b = Square then
        (let (b1, s1) =
           (if currentSpeedX > 0 \<and> b_x b \<ge> screenWidth
              then (b\<lparr>b_x := screenWidth\<rparr>, True)
            else if currentSpeedX < 0 \<and> b_x b + actualWidth b \<le> 0
              then (b\<lparr>b_x := - actualWidth b\<rparr>, True)
            else (b, False))
         in if currentSpeedY > 0 \<and> b_y b1 \<ge> screenHeight
              then (b1\<lparr>b_y := screenHeight\<rparr>, True)
            else if currentSpeedY < 0 \<and> b_y b1 + actualHeight b1 \<le> 0
              then (b1\<lparr>b_y := - actualHeight b1\<rparr>, True)
            else (b1, s1))
      else
        (let (b1, s1) =
           (if currentSpeedX > 0 \<and> b_x b - radiusX b \<ge> screenWidth
              then (b\<lparr>b_x := screenWidth + radiusX b\<rparr>, True)
            else if currentSpeedX < 0 \<and> b_x b + radiusX b \<le> 0
              then (b\<lparr>b_x := - radiusX b\<rparr>, True)
            else (b, False))
         in if currentSpeedY > 0 \<and> b_y b1 - radiusY b1 \<ge> screenHeight
              then (b1\<lparr>b_y := screenHeight + radiusY b1\<rparr>, True)
            else if currentSpeedY < 0 \<and> b_y b1 + radiusY b1 \<le> 0
              then (b1\<lparr>b_y := - radiusY b1\<rparr>, True)
            else (b1, s1)))"

definition boundary_bounce ::
  "real \<Rightarrow> real \<Rightarrow> real \<Rightarrow> real \<Rightarrow> Block \<Rightarrow> Block \<times> real \<times> real \<times> bool" where
  "boundary_bounce screenWidth screenHeight currentSpeedX currentSpeedY b =
     (if b_shape b = Square then
        (let (b1, sx, bounced1) =
           (if b_x b \<le> 0 then (b\<lparr>b_x := 0\<rparr>, currentSpeedX * (- 1), True)
            else if b_x b + actualWidth b \<ge> screenWidth
              then (b\<lparr>b_x := screenWidth - actualWidth b\<rparr>, currentSpeedX * (- 1), True)
            else (b, currentSpeedX, False))
         in if b_y b1 \<le> 0 then (b1\<lparr>b_y := 0\<rparr>, sx, currentSpeedY * (- 1), True)
            else if b_y b1 + actualHeight b1 \<ge> screenHeight
              then (b1\<lparr>b_y := screenHeight - actualHeight b1\<rparr>, sx, currentSpeedY * (- 1), True)
            else (b1, sx, currentSpeedY, bounced1))
      else
        (let (b1, sx, bounced1) =
           (if b_x b - radiusX b \<le> 0 then (b\<lparr>b_x := radiusX b\<rparr>, currentSpeedX * (- 1), True)
            else if b_x b + radiusX b \<ge> screenWidth
              then (b\<lparr>b_x := screenWidth - radiusX b\<rparr>, currentSpeedX * (- 1), True)
            else (b, currentSpeedX, False))
         in if b_y b1 - radiusY b1 \<le> 0
              then (b1\<lparr>b_y := radiusY b1\<rparr>, sx, currentSpeedY * (- 1), True)
            else if b_y b1 + radiusY b1 \<ge> screenHeight
              then (b1\<lparr>b_y := screenHeight - radiusY b1\<rparr>, sx, currentSpeedY * (- 1), True)
            else (b1, sx, currentSpeedY, bounced1)))"

definition boundary_pass :: "real \<Rightarrow> real \<Rightarrow> Block \<Rightarrow> Block option" where
  "boundary_pass screenWidth screenHeight b =
     (if b_shape b = Square then
        (let worldWidth = screenWidth + actualWidth b;
             worldHeight = screenHeight + actualHeight b
         in case positiveModulo (b_x b + actualWidth b) worldWidth of
              None \<Rightarrow> None
            | Some mx \<Rightarrow>
                (case positiveModulo (b_y b + actualHeight b) worldHeight of
                   None \<Rightarrow> None
                 | Some my \<Rightarrow> Some (b\<lparr>b_x := mx - actualWidth b, b_y := my - actualHeight b\<rparr>)))
      else
        (let worldWidth = screenWidth + 2 * radiusX b;
             worldHeight = screenHeight + 2 * radiusY b
         in case positiveModulo (b_x b + radiusX b) worldWidth of
              None \<Rightarrow> None
            | Some mx \<Rightarrow>
                (case positiveModulo (b_y b + radiusY b) worldHeight of
                   None \<Rightarrow> None
                 | Some my \<Rightarrow> Some (b\<lparr>b_x := mx - radiusX b, b_y := my - radiusY b\<rparr>))))"

text \<open>
  The boundary logic as \<open>animate\<close> runs it: it writes the Block back, under 'bounce'
  it assigns the closure's speeds and, when bounced, stores angle and speeds in the
  closure's own record object. The result holds \<open>stopAnimation\<close>.
\<close>

definition boundary_logic :: "closure \<Rightarrow> world \<Rightarrow> (closure \<times> world \<times> bool) option" where
  "boundary_logic c w =
     (let me = c_blockObject c; b = blocks w me;
          sw = c_screenWidth c; sh = c_screenHeight c;
          vx = c_currentSpeedX c; vy = c_currentSpeedY c
      in case c_boundary c of
           Front \<Rightarrow>
             (let (b', stopAnimation) = boundary_front sw sh vx vy b
              in Some (c, set_block me (\<lambda>_. b') w, stopAnimation))
         | Back \<Rightarrow>
             (let (b', stopAnimation) = boundary_back sw sh vx vy b
              in Some (c, set_block me (\<lambda>_. b') w, stopAnimation))
         | Bounce \<Rightarrow>
             (let (b', vx', vy', bounced) = boundary_bounce sw sh vx vy b;
                  c' = c\<lparr>c_currentSpeedX := vx', c_currentSpeedY := vy'\<rparr>;
                  w1 = set_block me (\<lambda>_. b') w;
                  w2 = (if bounced
                        then set_record (c_animationData c)
                               (\<lambda>r. r\<lparr>r_angle := atan2 vy' vx' * 180 / pi,
                                       r_currentSpeedX := vx', r_currentSpeedY := vy'\<rparr>) w1
                        else w1)
              in Some (c', w2, False))
         | Pass \<Rightarrow>
             (case boundary_pass sw sh b of
                None \<Rightarrow> None
              | Some b' \<Rightarrow> Some (c, set_block me (\<lambda>_. b') w, False)))"


section \<open>Inter-block collision logic of a tick\<close>

text \<open>
  The 'stop' branch for the pair at addresses \<open>me\<close> (blockToMove) and \<open>other\<close>, with
  their record objects at \<open>ra\<close> and \<open>rb\<close>. The assignments are made in the order of
  the code, each on the state the previous one left.
\<close>

definition resolve_stop ::
  "nat \<Rightarrow> nat \<Rightarrow> nat \<Rightarrow> nat \<Rightarrow> real \<Rightarrow> real \<Rightarrow> real \<Rightarrow> real \<Rightarrow> world \<Rightarrow> world" where
  "resolve_stop me other ra rb dx dy distance minDistance w =
     (let w1 = set_record ra (\<lambda>r. r\<lparr>r_currentSpeedX := 0, r_currentSpeedY := 0\<rparr>) w;
          w2 = set_record rb (\<lambda>r. r\<lparr>r_currentSpeedX := 0, r_currentSpeedY := 0\<rparr>) w1;
          overlap = minDistance - distance;
          separationX = overlap * (dx / distance);
          separationY = overlap * (dy / distance);
          w3 = set_block me (\<lambda>b. b\<lparr>b_x := b_x b - separationX * 0.5,
                                     b_y := b_y b - separationY * 0.5\<rparr>) w2;
          w4 = set_block other (\<lambda>b. b\<lparr>b_x := b_x b + separationX * 0.5,
                                        b_y := b_y b + separationY * 0.5\<rparr>) w3;
          w5 = updateVisualsOf me w4;
          w6 = updateVisualsOf other w5;
          w7 = stopMovingBlockOf me w6
      in stopMovingBlockOf other w7)"

text \<open>The 'bounce' branch: the normal components of the two record velocities are exchanged.\<close>

definition resolve_bounce ::
  "nat \<Rightarrow> nat \<Rightarrow> nat \<Rightarrow> nat \<Rightarrow> real \<Rightarrow> real \<Rightarrow> real \<Rightarrow> real \<Rightarrow> world \<Rightarrow> world" where
  "resolve_bounce me other ra rb dx dy distance minDistance w =
     (let v1x = r_currentSpeedX (records w ra);
          v1y = r_currentSpeedY (records w ra);
          v2x = r_currentSpeedX (records w rb);
          v2y = r_currentSpeedY (records w rb);
          nx = dx / distance;
          ny = dy / distance;
          tx = - ny;
          ty = nx;
          dp_norm1 = v1x * nx + v1y * ny;
          dp_tan1 = v1x * tx + v1y * ty;
          dp_norm2 = v2x * nx + v2y * ny;
          dp_tan2 = v2x * tx + v2y * ty;
          new_dp_norm1 = dp_norm2;
          new_dp_norm2 = dp_norm1;
          new_v1x = new_dp_norm1 * nx + dp_tan1 * tx;
          new_v1y = new_dp_norm1 * ny + dp_tan1 * ty;
          new_v2x = new_dp_norm2 * nx + dp_tan2 * tx;
          new_v2y = new_dp_norm2 * ny + dp_tan2 * ty;
          w1 = set_record ra (\<lambda>r. r\<lparr>r_currentSpeedX := new_v1x, r_currentSpeedY := new_v1y\<rparr>) w;
          w2 = set_record rb (\<lambda>r. r\<lparr>r_currentSpeedX := new_v2x, r_currentSpeedY := new_v2y\<rparr>) w1;
          w3 = set_record ra (\<lambda>r. r\<lparr>r_angle := atan2 new_v1y new_v1x * 180 / pi\<rparr>) w2;
          w4 = set_record rb (\<lambda>r. r\<lparr>r_angle := atan2 new_v2y new_v2x * 180 / pi\<rparr>) w3;
          overlap = minDistance - distance;
          separationX = overlap * nx;
          separationY = overlap * ny;
          w5 = set_block me (\<lambda>b. b\<lparr>b_x := b_x b - separationX * 0.5,
                                     b_y := b_y b - separationY * 0.5\<rparr>) w4;
          w6 = set_block other (\<lambda>b. b\<lparr>b_x := b_x b + separationX * 0.5,
                                        b_y := b_y b + separationY * 0.5\<rparr>) w5;
          w7 = updateVisualsOf me w6
      in updateVisualsOf other w7)"

text \<open>
  The loop over \<open>allBlocks\<close>, run when the collision policy is not 'pass'. A partner is
  skipped when it has the id of blockToMove, when either Block is not a circle, when
  the centre distance is not below the sum of the two \<open>radiusX\<close>, or when either id has
  no record. A pair found at distance 0 makes the code divide 0 by 0.
\<close>

fun collide :: "collision \<Rightarrow> nat \<Rightarrow> nat list \<Rightarrow> world \<Rightarrow> world result" where
  "collide col me [] w = Done w"
| "collide col me (other # rest) w =
     (let blockToMove = blocks w me; otherBlock = blocks w other
      in if b_id blockToMove = b_id otherBlock then collide col me rest w
         else if b_shape blockToMove = Circle \<and> b_shape otherBlock = Circle then
           (let dx = b_x otherBlock - b_x blockToMove;
                dy = b_y otherBlock - b_y blockToMove;
                distance = sqrt (dx * dx + dy * dy);
                minDistance = radiusX blockToMove + radiusX otherBlock
            in if distance < minDistance then
                 (case activeBlockAnimations w (b_id blockToMove) of
                    None \<Rightarrow> collide col me rest w
                  | Some ra \<Rightarrow>
                      (case activeBlockAnimations w (b_id otherBlock) of
                         None \<Rightarrow> collide col me rest w
                       | Some rb \<Rightarrow>
                           if col = CStop then
                             (if distance = 0 then NotANumber
                              else collide col me rest
                                     (resolve_stop me other ra rb dx dy distance minDistance w))
                           else if col = CBounce then
                             (if distance = 0 then NotANumber
                              else collide col me rest
                                     (resolve_bounce me other ra rb dx dy distance minDistance w))
                           else collide col me rest w))
               else collide col me rest w)
         else collide col me rest w)"

section \<open>The tick\<close>

text \<open>
  The end of \<open>animate\<close>, after the visual update of the moved Block: on
  \<open>stopAnimation\<close> the record of \<open>blockId\<close> is read from the map without a test, so
  a missing record throws; otherwise the next frame is requested when the map still
  has the id.
\<close>

definition finish_tick :: "closure \<Rightarrow> bool \<Rightarrow> world \<Rightarrow> (closure \<times> world) result" where
  "finish_tick c stopAnimation w =
     (if stopAnimation then
        (case activeBlockAnimations w (c_blockId c) of
           None \<Rightarrow> TypeError w
         | Some r \<Rightarrow>
             Done (c, (cancelAnimationFrame (r_animationFrameId (records w r)) w)
                        \<lparr>activeBlockAnimations := (activeBlockAnimations w)(c_blockId c := None)\<rparr>))
      else
        (case activeBlockAnimations w (c_blockId c) of
           None \<Rightarrow> Done (c, w)
         | Some r \<Rightarrow>
             (let (animationFrameId, w1) = requestAnimationFrame c w
              in Done (c, set_record r (\<lambda>d. d\<lparr>r_animationFrameId := animationFrameId\<rparr>) w1))))"

text \<open>
  \<open>animate\<close>, the callback of one moving Block, at time \<open>currentTime\<close>. It returns the
  closure with its variables as the tick left them, and the state.
\<close>

definition animate :: "closure \<Rightarrow> real \<Rightarrow> world \<Rightarrow> (closure \<times> world) result" where
  "animate c currentTime w =
     (let deltaTime = (currentTime - c_lastTime c) / 1000;
          c1 = c\<lparr>c_lastTime := currentTime\<rparr>;
          me = c_blockObject c1;
          calculatedDeltaX = c_currentSpeedX c1 * deltaTime;
          calculatedDeltaY = c_currentSpeedY c1 * deltaTime;
          w1 = set_block me (\<lambda>b. b\<lparr>b_x := b_x b + calculatedDeltaX,
                                     b_y := b_y b + calculatedDeltaY\<rparr>) w
      in case boundary_logic c1 w1 of
           None \<Rightarrow> NotANumber
         | Some (c2, w2, stopAnimation) \<Rightarrow>
             (case (if c_collision c2 \<noteq> CPass
                    then collide (c_collision c2) me (c_allBlocks c2) w2 else Done w2) of
                Done w3 \<Rightarrow>
                  finish_tick c2 stopAnimation
                    (updateBlockVisuals (c_blockId c2) (blocks w3 me) w3)
              | TypeError w' \<Rightarrow> TypeError w'
              | NotANumber \<Rightarrow> NotANumber))"

text \<open>The browser running the callback pending under frame id \<open>fid\<close>, if there is one.\<close>

definition run_frame :: "nat \<Rightarrow> real \<Rightarrow> world \<Rightarrow> (closure \<times> world) option result" where
  "run_frame fid currentTime w =
     (case frames w fid of
        None \<Rightarrow> Done None
      | Some c \<Rightarrow>
          (case animate c currentTime (w\<lparr>frames := (frames w)(fid := None)\<rparr>) of
             Done cw \<Rightarrow> Done (Some cw)
           | TypeError w' \<Rightarrow> TypeError w'
           | NotANumber \<Rightarrow> NotANumber))"

text \<open>
  Whether a frame was pending and its callback returned, and the state the frame left:
  the state at the return or at the throw, and the state before the frame where no
  frame is pending or where the model stops.
\<close>

fun ran :: "(closure \<times> world) option result \<Rightarrow> bool" where
  "ran (Done (Some _)) = True"
| "ran _ = False"

definition after_frame :: "nat \<Rightarrow> real \<Rightarrow> world \<Rightarrow> world" where
  "after_frame fid t w =
     (case run_frame fid t w of
        Done (Some (c, w')) \<Rightarrow> w'
      | Done None \<Rightarrow> w
      | TypeError w' \<Rightarrow> w'
      | NotANumber \<Rightarrow> w)"

section \<open>Starting a motion\<close>

text \<open>
  The owning component as moveBlock tests it: \<open>None\<close> is a falsy argument, and
  \<open>has_updateBlockVisuals\<close> says whether its property \<open>updateBlockVisuals\<close> is a
  function.

  moveBlock takes the block, the angle and the speed as dynamically typed values, the
  two policies as strings and the duration as a number; a caller that leaves out a
  defaulted parameter passes the default ('pass', 'pass', 0, the empty roster). The
  new record object gets the next free address.
\<close>

record component =
  has_updateBlockVisuals :: bool

definition console_error :: "string \<Rightarrow> world \<Rightarrow> world" where
  "console_error msg w = w\<lparr>console := console w @ [msg]\<rparr>"

definition moveBlock ::
  "jsval \<Rightarrow> jsval \<Rightarrow> jsval \<Rightarrow> component option \<Rightarrow> string \<Rightarrow> string \<Rightarrow> real \<Rightarrow> nat list
     \<Rightarrow> world \<Rightarrow> world" where
  "moveBlock blockObject angle pps owningComponent boundary collision duration allBlocks w =
     (case owningComponent of
        None \<Rightarrow> console_error ''moveBlock: owningComponent is invalid or does not implement updateBlockVisuals(blockId, blockData).'' w
      | Some oc \<Rightarrow>
          if \<not> has_updateBlockVisuals oc
            then console_error ''moveBlock: owningComponent is invalid or does not implement updateBlockVisuals(blockId, blockData).'' w
          else
            (case blockObject of
               JBlock a \<Rightarrow>
                 (case (angle, pps) of
                    (JNumber ang, JNumber p) \<Rightarrow>
                      (let blockId = b_id (blocks w a);
                           w1 = (case activeBlockAnimations w blockId of
                                   None \<Rightarrow> w
                                 | Some r \<Rightarrow> cancelAnimationFrame (r_animationFrameId (records w r)) w);
                           currentSpeedX = cos (ang * pi / 180) * p;
                           currentSpeedY = sin (ang * pi / 180) * p;
                           lastTime = performanceNow w1;
                           screenWidth = innerWidth w1;
                           screenHeight = innerHeight w1;
                           ra = nextRecord w1;
                           c = \<lparr> c_blockObject = a, c_blockId = blockId,
                                 c_boundary = parse_boundary boundary,
                                 c_collision = parse_collision collision,
                                 c_allBlocks = allBlocks,
                                 c_currentSpeedX = currentSpeedX, c_currentSpeedY = currentSpeedY,
                                 c_lastTime = lastTime,
                                 c_screenWidth = screenWidth, c_screenHeight = screenHeight,
                                 c_animationData = ra \<rparr>;
                           (fid, w2) = requestAnimationFrame c w1;
                           animationData =
                             \<lparr> r_animationFrameId = fid, r_blockId = blockId, r_blockObject = a,
                               r_angle = ang, r_pps = p, r_lastTime = lastTime,
                               r_currentSpeedX = currentSpeedX, r_currentSpeedY = currentSpeedY \<rparr>;
                           w3 = w2\<lparr>records := (records w2)(ra := animationData),
                                   nextRecord := Suc ra,
                                   activeBlockAnimations := (activeBlockAnimations w2)(blockId \<mapsto> ra)\<rparr>
                       in if duration > 0 then w3\<lparr>timeouts := timeouts w3 @ [(duration, blockId)]\<rparr>
                          else w3)
                  | _ \<Rightarrow> console_error ''moveBlock: Invalid angle or pps (pixels per second).'' w)
             | _ \<Rightarrow> console_error ''moveBlock: Invalid blockObject provided. Must be an instance of Block.'' w))"

section \<open>Vocabulary of the properties\<close>

text \<open>
  The mathematical modulo of a real by a positive real: the remainder of the floored
  division, which lies in \<open>[0, n)\<close>.
\<close>

definition math_mod :: "real \<Rightarrow> real \<Rightarrow> real" where
  "math_mod i n = i - n * of_int \<lfloor>i / n\<rfloor>"

text \<open>
  The extent of a body on each axis, and the distance from its anchor (the top-left
  corner of a square, the centre of a circle) to its right and bottom edge, both read
  off getBounds.
\<close>

definition bodyExtentX :: "Block \<Rightarrow> real" where
  "bodyExtentX b = maxX (getBounds b) - minX (getBounds b)"

definition bodyExtentY :: "Block \<Rightarrow> real" where
  "bodyExtentY b = maxY (getBounds b) - minY (getBounds b)"

definition anchorOffsetX :: "Block \<Rightarrow> real" where
  "anchorOffsetX b = maxX (getBounds b) - b_x b"

definition anchorOffsetY :: "Block \<Rightarrow> real" where
  "anchorOffsetY b = maxY (getBounds b) - b_y b"

text \<open>
  The tests of the collision loop for one partner, and the branch it then runs. The
  Block at address \<open>other\<close> is detected by the tick of the Block at \<open>me\<close> when the
  two ids differ, both are circles, the distance of the centres is below the sum of
  the two \<open>radiusX\<close>, and the map has a record for each id.
\<close>

definition centre_distance :: "world \<Rightarrow> nat \<Rightarrow> nat \<Rightarrow> real" where
  "centre_distance w me other =
     sqrt ((b_x (blocks w other) - b_x (blocks w me)) * (b_x (blocks w other) - b_x (blocks w me))
         + (b_y (blocks w other) - b_y (blocks w me)) * (b_y (blocks w other) - b_y (blocks w me)))"

definition detected :: "world \<Rightarrow> nat \<Rightarrow> nat \<Rightarrow> bool" where
  "detected w me other =
     (b_id (blocks w me) \<noteq> b_id (blocks w other)
      \<and> b_shape (blocks w me) = Circle \<and> b_shape (blocks w other) = Circle
      \<and> centre_distance w me other < radiusX (blocks w me) + radiusX (blocks w other)
      \<and> activeBlockAnimations w (b_id (blocks w me)) \<noteq> None
      \<and> activeBlockAnimations w (b_id (blocks w other)) \<noteq> None)"

definition resolve :: "collision \<Rightarrow> nat \<Rightarrow> nat \<Rightarrow> world \<Rightarrow> world" where
  "resolve col me other w =
     (let ra = the (activeBlockAnimations w (b_id (blocks w me)));
          rb = the (activeBlockAnimations w (b_id (blocks w other)));
          dx = b_x (blocks w other) - b_x (blocks w me);
          dy = b_y (blocks w other) - b_y (blocks w me);
          minDistance = radiusX (blocks w me) + radiusX (blocks w other)
      in if col = CStop
           then resolve_stop me other ra rb dx dy (centre_distance w me other) minDistance w
         else resolve_bounce me other ra rb dx dy (centre_distance w me other) minDistance w)"


section \<open>Frames of one body in sequence\<close>




section \<open>Example inputs\<close>

text \<open>
  \<open>new Block({id, shape: 'circle', x, y, size})\<close>, and a state in which no motion has
  been started: the Blocks at the given addresses, a window of the given extents, the
  clock at 0.
\<close>

definition no_options :: options where
  "no_options =
     \<lparr> o_id = None, o_shape = None, o_x = None, o_y = None, o_size = None,
       o_scale_x = None, o_scale_y = None, o_borderWidth = None, o_borderColor = None,
       o_level = None, o_opaque = None \<rparr>"

definition circle_block :: "string \<Rightarrow> real \<Rightarrow> real \<Rightarrow> real \<Rightarrow> Block" where
  "circle_block bid r px py =
     Block_new ''generated''
       (no_options\<lparr>o_id := Some bid, o_shape := Some ''circle'',
                    o_x := Some px, o_y := Some py, o_size := Some r\<rparr>)"

definition blank_record :: AnimationRecord where
  "blank_record =
     \<lparr> r_animationFrameId = 0, r_blockId = [], r_blockObject = 0, r_angle = 0, r_pps = 0,
       r_lastTime = 0, r_currentSpeedX = 0, r_currentSpeedY = 0 \<rparr>"

definition scene :: "(nat \<Rightarrow> Block) \<Rightarrow> real \<Rightarrow> real \<Rightarrow> world" where
  "scene bs w h =
     \<lparr> blocks = bs, records = (\<lambda>_. blank_record), nextRecord = 0,
       activeBlockAnimations = Map.empty, frames = Map.empty, nextFrame = 1,
       timeouts = [], console = [], visuals = [], innerWidth = w, innerHeight = h,
       performanceNow = 0 \<rparr>"

definition the_component :: component where
  "the_component = \<lparr> has_updateBlockVisuals = True \<rparr>"


text \<open>
  Two circles of radius 25 in a window 200 wide and 100 high: \<open>a\<close> at (170, 50) is
  started to the right at 100 px/s under boundary 'front' and collision 'stop',
  \<open>b\<close> at (190, 50) is started to the right at 10 px/s.
\<close>

definition edge_scene :: world where
  "edge_scene =
     moveBlock (JBlock 1) (JNumber 0) (JNumber 10) (Some the_component) ''pass'' ''pass'' 0 [0, 1]
       (moveBlock (JBlock 0) (JNumber 0) (JNumber 100) (Some the_component) ''front'' ''stop'' 0 [0, 1]
          (scene ((\<lambda>_. circle_block ''spare'' 1 0 0)
                    (0 := circle_block ''a'' 25 170 50, 1 := circle_block ''b'' 25 190 50))
             200 100))"

text \<open>
  Two circles of radius 10 in a window 200 wide and 100 high, both started under
  collision 'stop': \<open>a\<close> at (47, 50) to the right at 50 px/s, \<open>b\<close> at (50, 50) to
  the left at 50 px/s. After 60 ms of travel \<open>a\<close> has the centre of \<open>b\<close>.
\<close>

definition same_centre_scene :: world where
  "same_centre_scene =
     moveBlock (JBlock 1) (JNumber 180) (JNumber 50) (Some the_component) ''pass'' ''stop'' 0 [0, 1]
       (moveBlock (JBlock 0) (JNumber 0) (JNumber 50) (Some the_component) ''pass'' ''stop'' 0 [0, 1]
          (scene ((\<lambda>_. circle_block ''spare'' 1 0 0)
                    (0 := circle_block ''a'' 10 47 50, 1 := circle_block ''b'' 10 50 50))
             200 100))"

text \<open>
  The head-on scenario: circles of radius 10 at (0, 0) and (25, 0), started at
  50 px/s towards each other (angles 0 and 180) under collision 'bounce'.
\<close>

definition head_on_scene :: world where
  "head_on_scene =
     moveBlock (JBlock 1) (JNumber 180) (JNumber 50) (Some the_component) ''pass'' ''bounce'' 0 [0, 1]
       (moveBlock (JBlock 0) (JNumber 0) (JNumber 50) (Some the_component) ''pass'' ''bounce'' 0 [0, 1]
          (scene ((\<lambda>_. circle_block ''spare'' 1 0 0)
                    (0 := circle_block ''a'' 10 0 0, 1 := circle_block ''b'' 10 25 0))
             200 100))"

text \<open>
  The head-on scenario after the first frame of \<open>a\<close> at 60 ms, and then after the
  first frame of \<open>b\<close> at 60 ms, which finds the two circles overlapping.
\<close>

definition head_on_first :: world where
  "head_on_first = after_frame 1 60 head_on_scene"

definition head_on_contact :: world where
  "head_on_contact = after_frame 2 60 head_on_first"

text \<open>
  Three circles of radius 10 on one line, all moving: \<open>a\<close> at (40, 50) is started to
  the right at 100 px/s under collision 'bounce'; \<open>b\<close> at (66, 50) and \<open>c\<close> at
  (36, 50) are started at 10 px/s. After 100 ms \<open>a\<close> overlaps both.
\<close>

definition crowd_scene :: world where
  "crowd_scene =
     moveBlock (JBlock 2) (JNumber 0) (JNumber 10) (Some the_component) ''pass'' ''pass'' 0 [0, 1, 2]
       (moveBlock (JBlock 1) (JNumber 0) (JNumber 10) (Some the_component) ''pass'' ''pass'' 0 [0, 1, 2]
          (moveBlock (JBlock 0) (JNumber 0) (JNumber 100) (Some the_component) ''pass'' ''bounce'' 0 [0, 1, 2]
             (scene ((\<lambda>_. circle_block ''spare'' 1 0 0)
                       (0 := circle_block ''a'' 10 40 50, 1 := circle_block ''b'' 10 66 50,
                        2 := circle_block ''c'' 10 36 50))
                200 100)))"





section \<open>The state after each operation, field by field\<close>

lemma set_block_fields:
  "blocks (set_block a f w) = (blocks w)(a := f (blocks w a))"
  "records (set_block a f w) = records w"
  "nextRecord (set_block a f w) = nextRecord w"
  "activeBlockAnimations (set_block a f w) = activeBlockAnimations w"
  "frames (set_block a f w) = frames w"
  "nextFrame (set_block a f w) = nextFrame w"
  "timeouts (set_block a f w) = timeouts w"
  "console (set_block a f w) = console w"
  "visuals (set_block a f w) = visuals w"
  "innerWidth (set_block a f w) = innerWidth w"
  "innerHeight (set_block a f w) = innerHeight w"
  "performanceNow (set_block a f w) = performanceNow w"
  by (simp_all add: set_block_def)

lemma set_record_fields:
  "blocks (set_record a g w) = blocks w"
  "records (set_record a g w) = (records w)(a := g (records w a))"
  "nextRecord (set_record a g w) = nextRecord w"
  "activeBlockAnimations (set_record a g w) = activeBlockAnimations w"
  "frames (set_record a g w) = frames w"
  "nextFrame (set_record a g w) = nextFrame w"
  "timeouts (set_record a g w) = timeouts w"
  "console (set_record a g w) = console w"
  "visuals (set_record a g w) = visuals w"
  "innerWidth (set_record a g w) = innerWidth w"
  "innerHeight (set_record a g w) = innerHeight w"
  "performanceNow (set_record a g w) = performanceNow w"
  by (simp_all add: set_record_def)

lemma updateBlockVisuals_fields:
  "blocks (updateBlockVisuals i b w) = blocks w"
  "records (updateBlockVisuals i b w) = records w"
  "nextRecord (updateBlockVisuals i b w) = nextRecord w"
  "activeBlockAnimations (updateBlockVisuals i b w) = activeBlockAnimations w"
  "frames (updateBlockVisuals i b w) = frames w"
  "nextFrame (updateBlockVisuals i b w) = nextFrame w"
  "timeouts (updateBlockVisuals i b w) = timeouts w"
  "console (updateBlockVisuals i b w) = console w"
  "visuals (updateBlockVisuals i b w) = visuals w @ [(i, b)]"
  "innerWidth (updateBlockVisuals i b w) = innerWidth w"
  "innerHeight (updateBlockVisuals i b w) = innerHeight w"
  "performanceNow (updateBlockVisuals i b w) = performanceNow w"
  by (simp_all add: updateBlockVisuals_def)

lemma updateVisualsOf_fields:
  "blocks (updateVisualsOf a w) = blocks w"
  "records (updateVisualsOf a w) = records w"
  "nextRecord (updateVisualsOf a w) = nextRecord w"
  "activeBlockAnimations (updateVisualsOf a w) = activeBlockAnimations w"
  "frames (updateVisualsOf a w) = frames w"
  "nextFrame (updateVisualsOf a w) = nextFrame w"
  "timeouts (updateVisualsOf a w) = timeouts w"
  "console (updateVisualsOf a w) = console w"
  "visuals (updateVisualsOf a w) = visuals w @ [(b_id (blocks w a), blocks w a)]"
  "innerWidth (updateVisualsOf a w) = innerWidth w"
  "innerHeight (updateVisualsOf a w) = innerHeight w"
  "performanceNow (updateVisualsOf a w) = performanceNow w"
  by (simp_all add: updateVisualsOf_def updateBlockVisuals_def)

lemma stopMovingBlock_fields:
  "blocks (stopMovingBlock i w) = blocks w"
  "records (stopMovingBlock i w) = records w"
  "nextRecord (stopMovingBlock i w) = nextRecord w"
  "activeBlockAnimations (stopMovingBlock i w) = (activeBlockAnimations w)(i := None)"
  "frames (stopMovingBlock i w) =
     (case activeBlockAnimations w i of
        None \<Rightarrow> frames w
      | Some r \<Rightarrow> (frames w)(r_animationFrameId (records w r) := None))"
  "nextFrame (stopMovingBlock i w) = nextFrame w"
  "timeouts (stopMovingBlock i w) = timeouts w"
  "console (stopMovingBlock i w) = console w"
  "visuals (stopMovingBlock i w) = visuals w"
  "innerWidth (stopMovingBlock i w) = innerWidth w"
  "innerHeight (stopMovingBlock i w) = innerHeight w"
  "performanceNow (stopMovingBlock i w) = performanceNow w"
  by (auto simp: stopMovingBlock_def cancelAnimationFrame_def split: option.split)

lemma stopMovingBlockOf_fields:
  "blocks (stopMovingBlockOf a w) = blocks w"
  "records (stopMovingBlockOf a w) = records w"
  "nextRecord (stopMovingBlockOf a w) = nextRecord w"
  "activeBlockAnimations (stopMovingBlockOf a w) = (activeBlockAnimations w)(b_id (blocks w a) := None)"
  "frames (stopMovingBlockOf a w) =
     (case activeBlockAnimations w (b_id (blocks w a)) of
        None \<Rightarrow> frames w
      | Some r \<Rightarrow> (frames w)(r_animationFrameId (records w r) := None))"
  "nextFrame (stopMovingBlockOf a w) = nextFrame w"
  "timeouts (stopMovingBlockOf a w) = timeouts w"
  "console (stopMovingBlockOf a w) = console w"
  "visuals (stopMovingBlockOf a w) = visuals w"
  "innerWidth (stopMovingBlockOf a w) = innerWidth w"
  "innerHeight (stopMovingBlockOf a w) = innerHeight w"
  "performanceNow (stopMovingBlockOf a w) = performanceNow w"
  by (simp_all add: stopMovingBlockOf_def stopMovingBlock_fields)


lemma circle_block_simps:
  "circle_block bid r px py =
     \<lparr> b_id = (if bid = [] then ''generated'' else bid), b_shape = Circle,
       b_x = px, b_y = py, b_size = (if r = 0 then 50 else r),
       b_scale_x = 0, b_scale_y = 0, b_borderWidth = 0, b_borderColor = ''black'',
       b_level = 0, b_opaque = 100 \<rparr>"
  by (simp add: circle_block_def Block_new_def no_options_def num_or_def str_or_def)

lemma sqrt_square_numeral: "0 \<le> r \<Longrightarrow> r * r = s \<Longrightarrow> sqrt s = r"
  by (metis real_sqrt_abs2 abs_of_nonneg)

lemma sqrt_225: "sqrt 225 = 15"
  by (rule sqrt_square_numeral) simp_all

lemma cancelAnimationFrame_fields:
  "blocks (cancelAnimationFrame fid w) = blocks w"
  "records (cancelAnimationFrame fid w) = records w"
  "nextRecord (cancelAnimationFrame fid w) = nextRecord w"
  "activeBlockAnimations (cancelAnimationFrame fid w) = activeBlockAnimations w"
  "frames (cancelAnimationFrame fid w) = (frames w)(fid := None)"
  "nextFrame (cancelAnimationFrame fid w) = nextFrame w"
  "timeouts (cancelAnimationFrame fid w) = timeouts w"
  "console (cancelAnimationFrame fid w) = console w"
  "visuals (cancelAnimationFrame fid w) = visuals w"
  "innerWidth (cancelAnimationFrame fid w) = innerWidth w"
  "innerHeight (cancelAnimationFrame fid w) = innerHeight w"
  "performanceNow (cancelAnimationFrame fid w) = performanceNow w"
  by (simp_all add: cancelAnimationFrame_def)

lemmas world_fields = set_block_fields set_record_fields updateBlockVisuals_fields
  updateVisualsOf_fields stopMovingBlock_fields stopMovingBlockOf_fields
  cancelAnimationFrame_fields

lemmas geometry_defs = radiusX_def radiusY_def actualWidth_def actualHeight_def

lemmas tick_defs = run_frame_def animate_def boundary_logic_def finish_tick_def
  requestAnimationFrame_def

lemmas start_defs = moveBlock_def scene_def the_component_def circle_block_simps
  parse_boundary_def parse_collision_def cancelAnimationFrame_def requestAnimationFrame_def

text \<open>
  One round of the collision loop in terms of \<open>detected\<close> and \<open>resolve\<close>; the proofs
  below use this form of the loop.
\<close>

lemma collide_Cons:
  "collide col me (other # rest) w =
     (if detected w me other \<and> col \<noteq> CPass
        then (if centre_distance w me other = 0 then NotANumber
              else collide col me rest (resolve col me other w))
      else collide col me rest w)"
  by (cases col)
     (auto simp: Let_def detected_def centre_distance_def resolve_def split: option.splits)

declare collide.simps(2) [simp del]

lemma sqrt_values:
  "sqrt 484 = 22" "sqrt 400 = 20" "sqrt 361 = 19" "sqrt 289 = 17" "sqrt 256 = 16" "sqrt 144 = 12"
  by (rule sqrt_square_numeral; simp)+

lemmas collide_eval = collide_Cons detected_def centre_distance_def resolve_def
  resolve_stop_def resolve_bounce_def atan2_def sqrt_values sqrt_225

section \<open>The remainder and the mathematical modulo\<close>

lemma math_mod_range: "0 < n \<Longrightarrow> 0 \<le> math_mod i n \<and> math_mod i n < n"
proof -
  assume n: "0 < n"
  have a: "of_int \<lfloor>i / n\<rfloor> * n \<le> i" using n by (rule floor_divide_lower)
  have b: "i < (of_int \<lfloor>i / n\<rfloor> + 1) * n" using n by (rule floor_divide_upper)
  show ?thesis using a b by (simp add: math_mod_def algebra_simps)
qed

lemma math_mod_unique:
  assumes n: "0 < n" and r: "0 \<le> r" "r < n" and k: "i = r + n * of_int k"
  shows "math_mod i n = r"
proof -
  have "i / n = r / n + of_int k" using n k by (simp add: field_simps)
  moreover have "0 \<le> r / n" "r / n < 1" using n r by simp_all
  ultimately have "\<lfloor>i / n\<rfloor> = k" by (simp add: floor_unique)
  then show ?thesis using k by (simp add: math_mod_def)
qed

lemma js_rem_nonneg:
  assumes "0 < n" "0 \<le> a"
  shows "js_rem a n = math_mod a n"
  using assms by (simp add: js_rem_def math_mod_def trunc_def)

lemma js_rem_neg:
  assumes n: "0 < n" and a: "a < 0"
  shows "- n < js_rem a n \<and> js_rem a n \<le> 0 \<and> (\<exists>k. a = js_rem a n + n * of_int k)"
proof -
  have "a / n < 0" using a n by (simp add: divide_neg_pos)
  then have t: "trunc (a / n) = \<lceil>a / n\<rceil>" by (simp add: trunc_def)
  have u: "a \<le> of_int \<lceil>a / n\<rceil> * n" using n by (rule ceiling_divide_upper)
  have l: "(of_int \<lceil>a / n\<rceil> - 1) * n < a" using n by (rule ceiling_divide_lower)
  have "a = js_rem a n + n * of_int \<lceil>a / n\<rceil>" by (simp add: js_rem_def t)
  then show ?thesis using u l by (auto simp: js_rem_def t algebra_simps)
qed

lemma positiveModulo_math_mod:
  assumes n: "0 < n"
  shows "positiveModulo i n = Some (math_mod i n)"
proof (cases "0 \<le> i")
  case True
  let ?r = "math_mod i n"
  have r: "0 \<le> ?r" "?r < n" using math_mod_range[OF n] by simp_all
  have "js_rem i n = ?r" using n True by (rule js_rem_nonneg)
  moreover have "js_rem (?r + n) n = math_mod (?r + n) n"
    by (rule js_rem_nonneg) (use n r in simp_all)
  moreover have "math_mod (?r + n) n = ?r"
    by (rule math_mod_unique[where k = 1]) (use n r in simp_all)
  ultimately show ?thesis using n by (simp add: positiveModulo_def)
next
  case False
  then have neg: "i < 0" by simp
  let ?s = "js_rem i n"
  from js_rem_neg[OF n neg] obtain k where
    s: "- n < ?s" "?s \<le> 0" and k: "i = ?s + n * of_int k" by blast
  have nn: "0 \<le> ?s + n" using s by simp
  have "js_rem (?s + n) n = math_mod (?s + n) n"
    using n nn by (rule js_rem_nonneg)
  moreover have "math_mod (?s + n) n = math_mod i n"
  proof (cases "?s = 0")
    case True
    have "math_mod (?s + n) n = 0"
      by (rule math_mod_unique[where k = 1]) (use n True in simp_all)
    moreover have "math_mod i n = 0"
      by (rule math_mod_unique[where k = k]) (use n True k in simp_all)
    ultimately show ?thesis by simp
  next
    case False
    then have lt: "?s + n < n" using s by simp
    have "math_mod (?s + n) n = ?s + n"
      by (rule math_mod_unique[where k = 0]) (use n nn lt in simp_all)
    moreover have "math_mod i n = ?s + n"
      by (rule math_mod_unique[where k = "k - 1"]) (use n nn lt k in \<open>simp_all add: algebra_simps\<close>)
    ultimately show ?thesis by simp
  qed
  ultimately show ?thesis using n by (simp add: positiveModulo_def)
qed



section \<open>Boundary policy 'pass'\<close>


lemma geometry_pos_independent [simp]:
  "bodyExtentX (b\<lparr>b_x := u\<rparr>) = bodyExtentX b"
  "bodyExtentX (b\<lparr>b_y := v\<rparr>) = bodyExtentX b"
  "bodyExtentY (b\<lparr>b_x := u\<rparr>) = bodyExtentY b"
  "bodyExtentY (b\<lparr>b_y := v\<rparr>) = bodyExtentY b"
  "anchorOffsetX (b\<lparr>b_x := u\<rparr>) = anchorOffsetX b"
  "anchorOffsetX (b\<lparr>b_y := v\<rparr>) = anchorOffsetX b"
  "anchorOffsetY (b\<lparr>b_x := u\<rparr>) = anchorOffsetY b"
  "anchorOffsetY (b\<lparr>b_y := v\<rparr>) = anchorOffsetY b"
  by (simp_all add: bodyExtentX_def bodyExtentY_def anchorOffsetX_def anchorOffsetY_def
        getBounds_def actualWidth_def actualHeight_def radiusX_def radiusY_def)




section \<open>Block construction and resizing\<close>

text \<open>
  Claim C10. A constructor option \<open>size\<close> of 0 gives the default size 50, and no
  options give a Block of size 0; \<open>resize(0)\<close> stores 0; moveTo and moveBy leave the
  size as it is. So among the operations of Block only resize reaches size 0.
\<close>

theorem constructor_size_never_zero:
  "b_size (Block_new generated (opts\<lparr>o_size := Some 0\<rparr>)) = 50
   \<and> b_size (Block_new generated opts) \<noteq> 0
   \<and> b_size (resize (JNumber 0) b) = 0
   \<and> b_size (moveTo newX newY b) = b_size b
   \<and> b_size (moveBy deltaX deltaY b) = b_size b"
  by (simp add: Block_new_def num_or_def moveTo_def moveBy_def split: option.split)

section \<open>Argument validation of moveBlock\<close>

lemma moveBlock_no_component:
  "moveBlock blockObject angle pps None boundary collision duration allBlocks w
     = console_error ''moveBlock: owningComponent is invalid or does not implement updateBlockVisuals(blockId, blockData).'' w"
  by (simp add: moveBlock_def)

lemma moveBlock_no_callback:
  "\<not> has_updateBlockVisuals oc \<Longrightarrow>
   moveBlock blockObject angle pps (Some oc) boundary collision duration allBlocks w
     = console_error ''moveBlock: owningComponent is invalid or does not implement updateBlockVisuals(blockId, blockData).'' w"
  by (simp add: moveBlock_def)

lemma moveBlock_no_block:
  "has_updateBlockVisuals oc \<Longrightarrow> \<forall>a. blockObject \<noteq> JBlock a \<Longrightarrow>
   moveBlock blockObject angle pps (Some oc) boundary collision duration allBlocks w
     = console_error ''moveBlock: Invalid blockObject provided. Must be an instance of Block.'' w"
  by (cases blockObject) (simp_all add: moveBlock_def)

lemma moveBlock_no_number:
  "has_updateBlockVisuals oc \<Longrightarrow> \<not> is_number angle \<or> \<not> is_number pps \<Longrightarrow>
   moveBlock (JBlock a) angle pps (Some oc) boundary collision duration allBlocks w
     = console_error ''moveBlock: Invalid angle or pps (pixels per second).'' w"
  by (cases angle; cases pps) (simp_all add: moveBlock_def)

lemma moveBlock_invalid_only_logs:
  assumes "(\<forall>a. blockObject \<noteq> JBlock a) \<or> \<not> is_number angle \<or> \<not> is_number pps
           \<or> owningComponent = None
           \<or> (\<exists>oc. owningComponent = Some oc \<and> \<not> has_updateBlockVisuals oc)"
  shows "\<exists>msg. moveBlock blockObject angle pps owningComponent boundary collision duration allBlocks w
                 = w\<lparr>console := console w @ [msg]\<rparr>"
proof (cases owningComponent)
  case None
  then show ?thesis by (auto simp: moveBlock_no_component console_error_def)
next
  case (Some oc)
  show ?thesis
  proof (cases "has_updateBlockVisuals oc")
    case False
    then show ?thesis using Some by (auto simp: moveBlock_no_callback console_error_def)
  next
    case True
    show ?thesis
    proof (cases "\<exists>a. blockObject = JBlock a")
      case False
      then show ?thesis using Some True by (auto simp: moveBlock_no_block console_error_def)
    next
      case isb: True
      then obtain a where a: "blockObject = JBlock a" by blast
      with assms Some True have "\<not> is_number angle \<or> \<not> is_number pps" by auto
      then show ?thesis using Some True a
        by (auto simp: moveBlock_no_number console_error_def)
    qed
  qed
qed

text \<open>
  Claim C9. A moveBlock call whose block is not a Block instance, whose angle or pps is
  not a number, or whose owning component is missing or has no function
  \<open>updateBlockVisuals\<close>, writes one diagnostic to the console and changes nothing
  else: no record is created, no frame and no timeout is scheduled, and no Block and
  no record object is modified.
\<close>

theorem moveBlock_invalid_arguments:
  assumes "(\<forall>a. blockObject \<noteq> JBlock a) \<or> \<not> is_number angle \<or> \<not> is_number pps
           \<or> owningComponent = None
           \<or> (\<exists>oc. owningComponent = Some oc \<and> \<not> has_updateBlockVisuals oc)"
  shows "(\<exists>msg. moveBlock blockObject angle pps owningComponent boundary collision duration allBlocks w
                 = w\<lparr>console := console w @ [msg]\<rparr>)
         \<and> activeBlockAnimations
               (moveBlock blockObject angle pps owningComponent boundary collision duration allBlocks w)
             = activeBlockAnimations w
         \<and> frames
               (moveBlock blockObject angle pps owningComponent boundary collision duration allBlocks w)
             = frames w
         \<and> timeouts
               (moveBlock blockObject angle pps owningComponent boundary collision duration allBlocks w)
             = timeouts w
         \<and> blocks
               (moveBlock blockObject angle pps owningComponent boundary collision duration allBlocks w)
             = blocks w
         \<and> records
               (moveBlock blockObject angle pps owningComponent boundary collision duration allBlocks w)
             = records w"
proof -
  from moveBlock_invalid_only_logs[OF assms] obtain msg where
    "moveBlock blockObject angle pps owningComponent boundary collision duration allBlocks w
       = w\<lparr>console := console w @ [msg]\<rparr>" by blast
  then show ?thesis by auto
qed

theorem moveBlock_invalid_arguments_witness:
  "\<not> is_number (JString ''fast'')
   \<and> (\<exists>msg. moveBlock (JBlock 0) (JNumber 90) (JString ''fast'')
               (Some \<lparr>has_updateBlockVisuals = True\<rparr>) ''front'' ''stop'' 500 [0, 1] edge_scene
             = edge_scene\<lparr>console := console edge_scene @ [msg]\<rparr>)
   \<and> frames (moveBlock (JBlock 0) (JNumber 90) (JString ''fast'')
               (Some \<lparr>has_updateBlockVisuals = True\<rparr>) ''front'' ''stop'' 500 [0, 1] edge_scene)
       = frames edge_scene"
  using moveBlock_invalid_arguments[of "JBlock 0" "JNumber 90" "JString ''fast''"
          "Some \<lparr>has_updateBlockVisuals = True\<rparr>" "''front''" "''stop''" 500 "[0, 1]" edge_scene]
  by simp

section \<open>The viewport extents a tick uses\<close>

















section \<open>The collision loop\<close>

lemma no_record_no_collision:
  "activeBlockAnimations w (b_id (blocks w me)) = None \<Longrightarrow> collide col me roster w = Done w"
  by (induction roster) (simp_all add: collide_Cons detected_def)

lemma resolve_stop_world:
  "resolve CStop me other w =
     stopMovingBlockOf other (stopMovingBlockOf me (updateVisualsOf other (updateVisualsOf me
       (set_block other
          (\<lambda>b. b\<lparr>b_x := b_x b + (radiusX (blocks w me) + radiusX (blocks w other) - centre_distance w me other)
                               * ((b_x (blocks w other) - b_x (blocks w me)) / centre_distance w me other) * 0.5,
                  b_y := b_y b + (radiusX (blocks w me) + radiusX (blocks w other) - centre_distance w me other)
                               * ((b_y (blocks w other) - b_y (blocks w me)) / centre_distance w me other) * 0.5\<rparr>)
       (set_block me
          (\<lambda>b. b\<lparr>b_x := b_x b - (radiusX (blocks w me) + radiusX (blocks w other) - centre_distance w me other)
                               * ((b_x (blocks w other) - b_x (blocks w me)) / centre_distance w me other) * 0.5,
                  b_y := b_y b - (radiusX (blocks w me) + radiusX (blocks w other) - centre_distance w me other)
                               * ((b_y (blocks w other) - b_y (blocks w me)) / centre_distance w me other) * 0.5\<rparr>)
       (set_record (the (activeBlockAnimations w (b_id (blocks w other))))
          (\<lambda>r. r\<lparr>r_currentSpeedX := 0, r_currentSpeedY := 0\<rparr>)
       (set_record (the (activeBlockAnimations w (b_id (blocks w me))))
          (\<lambda>r. r\<lparr>r_currentSpeedX := 0, r_currentSpeedY := 0\<rparr>) w)))))))"
  by (simp add: resolve_def resolve_stop_def Let_def)

lemma resolve_stop_own_record:
  "activeBlockAnimations (resolve CStop me other w) (b_id (blocks (resolve CStop me other w) me)) = None"
  by (simp add: resolve_stop_world world_fields)

lemma resolve_stop_visuals:
  "length (visuals (resolve CStop me other w)) = length (visuals w) + 2"
  by (simp add: resolve_stop_world world_fields)

lemma collide_stop_first:
  "collide CStop me roster w =
     (case find (detected w me) roster of
        None \<Rightarrow> Done w
      | Some other \<Rightarrow>
          if centre_distance w me other = 0 then NotANumber
          else Done (resolve CStop me other w))"
  by (induction roster)
     (simp_all add: collide_Cons no_record_no_collision resolve_stop_own_record)

lemma edge_scene_fields:
  "blocks edge_scene 0 = circle_block ''a'' 25 170 50"
  "blocks edge_scene (Suc 0) = circle_block ''b'' 25 190 50"
  "activeBlockAnimations edge_scene ''a'' = Some 0"
  "activeBlockAnimations edge_scene ''b'' = Some (Suc 0)"
  "r_animationFrameId (records edge_scene 0) = Suc 0"
  "r_animationFrameId (records edge_scene (Suc 0)) = 2"
  "frames edge_scene (Suc 0) =
     Some \<lparr>c_blockObject = 0, c_blockId = ''a'', c_boundary = Front, c_collision = CStop,
            c_allBlocks = [0, Suc 0], c_currentSpeedX = 100, c_currentSpeedY = 0, c_lastTime = 0,
            c_screenWidth = 200, c_screenHeight = 100, c_animationData = 0\<rparr>"
  "visuals edge_scene = []"
  unfolding edge_scene_def
  by (simp_all add: start_defs Let_def)

lemma crowd_scene_fields:
  "blocks crowd_scene 0 = circle_block ''a'' 10 40 50"
  "blocks crowd_scene (Suc 0) = circle_block ''b'' 10 66 50"
  "blocks crowd_scene 2 = circle_block ''c'' 10 36 50"
  "activeBlockAnimations crowd_scene ''a'' = Some 0"
  "activeBlockAnimations crowd_scene ''b'' = Some (Suc 0)"
  "activeBlockAnimations crowd_scene ''c'' = Some 2"
  "r_currentSpeedX (records crowd_scene 0) = 100" "r_currentSpeedY (records crowd_scene 0) = 0"
  "r_currentSpeedX (records crowd_scene (Suc 0)) = 10" "r_currentSpeedY (records crowd_scene (Suc 0)) = 0"
  "r_currentSpeedX (records crowd_scene 2) = 10" "r_currentSpeedY (records crowd_scene 2) = 0"
  "frames crowd_scene (Suc 0) =
     Some \<lparr>c_blockObject = 0, c_blockId = ''a'', c_boundary = Pass, c_collision = CBounce,
            c_allBlocks = [0, Suc 0, 2], c_currentSpeedX = 100, c_currentSpeedY = 0, c_lastTime = 0,
            c_screenWidth = 200, c_screenHeight = 100, c_animationData = 0\<rparr>"
  "nextFrame crowd_scene = 4"
  "visuals crowd_scene = []"
  unfolding crowd_scene_def
  by (simp_all add: start_defs Let_def)

lemma crowd_scene_run:
  "\<exists>c w. run_frame 1 100 crowd_scene = Done (Some (c, w))
      \<and> map fst (visuals w) = [''a'', ''b'', ''a'', ''c'', ''a'']
      \<and> b_x (blocks w 1) = 68 \<and> b_x (blocks w 2) = 32 \<and> b_x (blocks w 0) = 52"
  by (simp add: crowd_scene_fields circle_block_simps tick_defs boundary_pass_def
        positiveModulo_math_mod math_mod_def collide_eval
        geometry_defs world_fields Let_def)

text \<open>
  Claim C2, as stated, fails under collision 'bounce'. In the three-circle scenario
  the frame of \<open>a\<close> at 100 ms finds \<open>a\<close> at x = 50, overlapping \<open>b\<close> and then, after
  the first resolution has moved \<open>a\<close> to x = 48, overlapping \<open>c\<close>. The one tick
  resolves both collisions: the visual update is called for \<open>a\<close> and \<open>b\<close>, then
  for \<open>a\<close> and \<open>c\<close>, then for \<open>a\<close>, and both \<open>b\<close> and \<open>c\<close> have been moved.
\<close>

theorem bounce_resolves_two_partners_in_one_tick:
  "ran (run_frame 1 100 crowd_scene)
   \<and> map fst (visuals (after_frame 1 100 crowd_scene)) = [''a'', ''b'', ''a'', ''c'', ''a'']
   \<and> b_x (blocks crowd_scene 1) = 66 \<and> b_x (blocks (after_frame 1 100 crowd_scene) 1) = 68
   \<and> b_x (blocks crowd_scene 2) = 36 \<and> b_x (blocks (after_frame 1 100 crowd_scene) 2) = 32"
  using crowd_scene_run
  by (auto simp: after_frame_def crowd_scene_fields circle_block_simps)

text \<open>
  Claim C2, amended. Under collision 'stop' a tick resolves at most one collision:
  the loop resolves the first partner of the roster that it detects (ids differ, both
  circles, centres closer than the sum of the two \<open>radiusX\<close>, both records present) and
  no other, since that resolution removes the record of the ticking body; a resolved
  collision makes two calls of the visual update, so at most two are made. Under
  collision 'bounce' there is no such limit: after resolving a detected partner the
  loop goes on with the rest of the roster on the state the resolution left.
\<close>

theorem stop_resolves_first_detected_partner_only:
  "collide CStop me roster w =
     (case find (detected w me) roster of
        None \<Rightarrow> Done w
      | Some other \<Rightarrow>
          if centre_distance w me other = 0 then NotANumber
          else Done (resolve CStop me other w))
   \<and> (\<forall>w'. collide CStop me roster w = Done w'
             \<longrightarrow> length (visuals w') \<le> length (visuals w) + 2)
   \<and> collide CBounce me (partner # rest) w =
       (if detected w me partner
          then (if centre_distance w me partner = 0 then NotANumber
                else collide CBounce me rest (resolve CBounce me partner w))
        else collide CBounce me rest w)"
proof -
  have "length (visuals w') \<le> length (visuals w) + 2"
    if "collide CStop me roster w = Done w'" for w'
    using that
    by (auto simp: collide_stop_first resolve_stop_visuals split: option.splits if_splits)
  then show ?thesis
    by (simp add: collide_stop_first collide_Cons)
qed

theorem stop_resolves_first_detected_partner_only_witness:
  "collide CStop 0 [0, 1] edge_scene = Done (resolve CStop 0 1 edge_scene)
   \<and> length (visuals (resolve CStop 0 1 edge_scene)) \<le> length (visuals edge_scene) + 2"
proof -
  have d: "\<not> detected edge_scene 0 0" "detected edge_scene 0 (Suc 0)"
    "centre_distance edge_scene 0 (Suc 0) \<noteq> 0"
    by (simp_all add: detected_def centre_distance_def edge_scene_fields circle_block_simps
          geometry_defs sqrt_values)
  have "collide CStop 0 [0, 1] edge_scene = Done (resolve CStop 0 1 edge_scene)"
    using stop_resolves_first_detected_partner_only[of 0 "[0, 1]" edge_scene] d by simp
  then show ?thesis
    using stop_resolves_first_detected_partner_only[of 0 "[0, 1]" edge_scene] by simp
qed

section \<open>Boundary policy 'bounce'\<close>















section \<open>Boundary policy 'front'\<close>














section \<open>A terminal tick after a 'stop' collision\<close>

lemma edge_scene_run:
  "\<exists>w'. run_frame 1 100 edge_scene = TypeError w'
        \<and> activeBlockAnimations w' ''a'' = None
        \<and> activeBlockAnimations w' ''b'' = None
        \<and> map fst (visuals w') = [''a'', ''b'', ''a'']
        \<and> b_x (blocks w' 0) = 157.5 \<and> b_x (blocks w' 1) = 207.5"
  by (simp add: edge_scene_fields circle_block_simps tick_defs boundary_front_def
        collide_eval geometry_defs world_fields Let_def)

text \<open>
  Claim C4 fails on the code. In the scenario of two circles near the right edge, the
  frame of \<open>a\<close> at 100 ms moves \<open>a\<close> to x = 180, the 'front' logic clamps it to 175
  and sets \<open>stopAnimation\<close>, and the 'stop' collision with \<open>b\<close> then removes the
  records of both. The visual update is still called for \<open>a\<close>, but the terminal
  branch reads \<open>activeBlockAnimations.get(blockId).animationFrameId\<close> of the removed
  record: the tick throws a TypeError instead of completing.
\<close>

theorem terminal_tick_after_stop_collision_throws:
  "run_frame 1 100 edge_scene = TypeError (after_frame 1 100 edge_scene)
   \<and> activeBlockAnimations (after_frame 1 100 edge_scene) ''a'' = None
   \<and> activeBlockAnimations (after_frame 1 100 edge_scene) ''b'' = None
   \<and> map fst (visuals (after_frame 1 100 edge_scene)) = [''a'', ''b'', ''a'']
   \<and> b_x (blocks (after_frame 1 100 edge_scene) 0) = 157.5
   \<and> b_x (blocks (after_frame 1 100 edge_scene) 1) = 207.5"
  using edge_scene_run by (auto simp: after_frame_def)

section \<open>Collision policy 'stop'\<close>

text \<open>
  What the 'stop' branch does for a detected pair whose centres differ: the pair ends
  at a centre distance equal to the sum of the two \<open>radiusX\<close>, the speeds in both
  records are 0, both records are removed, and running the loop on the result
  changes nothing.
\<close>

lemma scaled_distance:
  assumes d: "0 < sqrt (dx * dx + dy * dy)" and m: "sqrt (dx * dx + dy * dy) < m"
  shows "sqrt ((dx + (m - sqrt (dx * dx + dy * dy)) * (dx / sqrt (dx * dx + dy * dy)))
                 * (dx + (m - sqrt (dx * dx + dy * dy)) * (dx / sqrt (dx * dx + dy * dy)))
             + (dy + (m - sqrt (dx * dx + dy * dy)) * (dy / sqrt (dx * dx + dy * dy)))
                 * (dy + (m - sqrt (dx * dx + dy * dy)) * (dy / sqrt (dx * dx + dy * dy)))) = m"
proof -
  define d where "d = sqrt (dx * dx + dy * dy)"
  have dpos: "0 < d" and dm: "d < m" using d m by (simp_all add: d_def)
  have sq: "d * d = dx * dx + dy * dy"
    unfolding d_def by (metis real_sqrt_mult_self abs_of_nonneg add_nonneg_nonneg zero_le_square)
  have ex: "dx + (m - d) * (dx / d) = dx * (m / d)" "dy + (m - d) * (dy / d) = dy * (m / d)"
    using dpos by (simp_all add: field_simps)
  have "(dx * (m / d)) * (dx * (m / d)) + (dy * (m / d)) * (dy * (m / d))
        = (m / d) * (m / d) * (dx * dx + dy * dy)"
    by (simp add: algebra_simps add_divide_distrib)
  also have "\<dots> = (m / d) * (m / d) * (d * d)" by (simp only: sq)
  also have "\<dots> = m * m" using dpos by simp
  finally have "sqrt ((dx * (m / d)) * (dx * (m / d)) + (dy * (m / d)) * (dy * (m / d))) = sqrt (m * m)"
    by simp
  also have "\<dots> = m" using dpos dm by simp
  finally show ?thesis unfolding d_def[symmetric] ex .
qed


lemma stop_separates_to_tangency:
  assumes det: "detected w me other" and nz: "centre_distance w me other \<noteq> 0"
  shows "centre_distance (resolve CStop me other w) me other
           = radiusX (blocks w me) + radiusX (blocks w other)"
    and "activeBlockAnimations (resolve CStop me other w) (b_id (blocks w me)) = None"
    and "activeBlockAnimations (resolve CStop me other w) (b_id (blocks w other)) = None"
    and "r_currentSpeedX (records (resolve CStop me other w)
            (the (activeBlockAnimations w (b_id (blocks w me))))) = 0"
    and "r_currentSpeedY (records (resolve CStop me other w)
            (the (activeBlockAnimations w (b_id (blocks w me))))) = 0"
    and "r_currentSpeedX (records (resolve CStop me other w)
            (the (activeBlockAnimations w (b_id (blocks w other))))) = 0"
    and "r_currentSpeedY (records (resolve CStop me other w)
            (the (activeBlockAnimations w (b_id (blocks w other))))) = 0"
    and "collide CStop me [other] (resolve CStop me other w) = Done (resolve CStop me other w)"
proof -
  let ?dx = "b_x (blocks w other) - b_x (blocks w me)"
  let ?dy = "b_y (blocks w other) - b_y (blocks w me)"
  let ?m = "radiusX (blocks w me) + radiusX (blocks w other)"
  from det have ne: "me \<noteq> other" by (auto simp: detected_def)
  have d0: "0 < sqrt (?dx * ?dx + ?dy * ?dy)"
    using nz by (simp add: centre_distance_def less_le)
  have dm: "sqrt (?dx * ?dx + ?dy * ?dy) < ?m"
    using det by (simp add: detected_def centre_distance_def)
  have bx: "b_x (blocks (resolve CStop me other w) other) - b_x (blocks (resolve CStop me other w) me)
            = ?dx + (?m - sqrt (?dx * ?dx + ?dy * ?dy)) * (?dx / sqrt (?dx * ?dx + ?dy * ?dy))"
    using ne by (simp add: resolve_stop_world world_fields centre_distance_def)
  have by': "b_y (blocks (resolve CStop me other w) other) - b_y (blocks (resolve CStop me other w) me)
            = ?dy + (?m - sqrt (?dx * ?dx + ?dy * ?dy)) * (?dy / sqrt (?dx * ?dx + ?dy * ?dy))"
    using ne by (simp add: resolve_stop_world world_fields centre_distance_def)
  show "centre_distance (resolve CStop me other w) me other = ?m"
    unfolding centre_distance_def[of "resolve CStop me other w"] bx by'
    by (rule scaled_distance[OF d0 dm])
  show "activeBlockAnimations (resolve CStop me other w) (b_id (blocks w me)) = None"
    using ne by (simp add: resolve_stop_world world_fields)
  show "activeBlockAnimations (resolve CStop me other w) (b_id (blocks w other)) = None"
    using ne by (simp add: resolve_stop_world world_fields)
  show "r_currentSpeedX (records (resolve CStop me other w)
            (the (activeBlockAnimations w (b_id (blocks w me))))) = 0"
    by (simp add: resolve_stop_world world_fields)
  show "r_currentSpeedY (records (resolve CStop me other w)
            (the (activeBlockAnimations w (b_id (blocks w me))))) = 0"
    by (simp add: resolve_stop_world world_fields)
  show "r_currentSpeedX (records (resolve CStop me other w)
            (the (activeBlockAnimations w (b_id (blocks w other))))) = 0"
    by (simp add: resolve_stop_world world_fields)
  show "r_currentSpeedY (records (resolve CStop me other w)
            (the (activeBlockAnimations w (b_id (blocks w other))))) = 0"
    by (simp add: resolve_stop_world world_fields)
  show "collide CStop me [other] (resolve CStop me other w) = Done (resolve CStop me other w)"
    by (rule no_record_no_collision) (rule resolve_stop_own_record)
qed

lemma same_centre_scene_fields:
  "blocks same_centre_scene 0 = circle_block ''a'' 10 47 50"
  "blocks same_centre_scene (Suc 0) = circle_block ''b'' 10 50 50"
  "activeBlockAnimations same_centre_scene ''a'' = Some 0"
  "activeBlockAnimations same_centre_scene ''b'' = Some (Suc 0)"
  "frames same_centre_scene (Suc 0) =
     Some \<lparr>c_blockObject = 0, c_blockId = ''a'', c_boundary = Pass, c_collision = CStop,
            c_allBlocks = [0, Suc 0], c_currentSpeedX = 50, c_currentSpeedY = 0, c_lastTime = 0,
            c_screenWidth = 200, c_screenHeight = 100, c_animationData = 0\<rparr>"
  unfolding same_centre_scene_def
  by (simp_all add: start_defs Let_def)

text \<open>
  Claim C6 fails on the code when the two centres coincide. In the scenario the frame
  of \<open>a\<close> at 60 ms moves \<open>a\<close> onto the centre of \<open>b\<close>: the distance is 0, below
  the sum of the radii, and both records are present, so the 'stop' branch divides
  \<open>dx\<close> and \<open>dy\<close> (both 0) by the distance 0. The positions of both bodies become
  NaN; the pair is not made tangent.
\<close>

theorem stop_at_coincident_centres_is_not_a_number:
  "run_frame 1 60 same_centre_scene = NotANumber"
  by (simp add: same_centre_scene_fields circle_block_simps tick_defs boundary_pass_def
        positiveModulo_math_mod math_mod_def collide_eval
        geometry_defs world_fields Let_def)

section \<open>Collision policy 'bounce' and the later ticks\<close>

text \<open>
  What the 'bounce' branch does to the two records of a detected pair whose centres
  differ: along the unit normal from blockToMove to the partner the two record
  velocities exchange their components, and along the tangent each keeps its own.
\<close>

lemma unit_normal:
  assumes "sqrt (dx * dx + dy * dy) \<noteq> 0"
  shows "(dx / sqrt (dx * dx + dy * dy)) * (dx / sqrt (dx * dx + dy * dy))
         + (dy / sqrt (dx * dx + dy * dy)) * (dy / sqrt (dx * dx + dy * dy)) = 1"
proof -
  define d where "d = sqrt (dx * dx + dy * dy)"
  have sq: "d * d = dx * dx + dy * dy"
    unfolding d_def by (metis real_sqrt_mult_self abs_of_nonneg add_nonneg_nonneg zero_le_square)
  have "(dx / d) * (dx / d) + (dy / d) * (dy / d) = (dx * dx + dy * dy) / (d * d)"
    by (simp add: add_divide_distrib)
  also have "\<dots> = 1" using assms by (simp add: sq[symmetric] d_def[symmetric])
  finally show ?thesis unfolding d_def .
qed

lemma exchange_algebra:
  fixes nx ny :: real
  assumes u: "nx * nx + ny * ny = 1"
  shows "(q * nx + p * (- ny)) * nx + (q * ny + p * nx) * ny = q"
    and "(q * nx + p * (- ny)) * (- ny) + (q * ny + p * nx) * nx = p"
proof -
  have "(q * nx + p * (- ny)) * nx + (q * ny + p * nx) * ny = q * (nx * nx + ny * ny)"
    by (simp add: algebra_simps)
  then show "(q * nx + p * (- ny)) * nx + (q * ny + p * nx) * ny = q" by (simp add: u)
  have "(q * nx + p * (- ny)) * (- ny) + (q * ny + p * nx) * nx = p * (nx * nx + ny * ny)"
    by (simp add: algebra_simps)
  then show "(q * nx + p * (- ny)) * (- ny) + (q * ny + p * nx) * nx = p" by (simp add: u)
qed

lemma bounce_exchanges_normal_components:
  assumes nz: "centre_distance w me other \<noteq> 0"
    and ra: "activeBlockAnimations w (b_id (blocks w me)) = Some ra"
    and rb: "activeBlockAnimations w (b_id (blocks w other)) = Some rb"
    and ne: "ra \<noteq> rb"
  defines "nx \<equiv> (b_x (blocks w other) - b_x (blocks w me)) / centre_distance w me other"
    and "ny \<equiv> (b_y (blocks w other) - b_y (blocks w me)) / centre_distance w me other"
    and "w' \<equiv> resolve CBounce me other w"
  shows "r_currentSpeedX (records w' ra) * nx + r_currentSpeedY (records w' ra) * ny
           = r_currentSpeedX (records w rb) * nx + r_currentSpeedY (records w rb) * ny"
    and "r_currentSpeedX (records w' rb) * nx + r_currentSpeedY (records w' rb) * ny
           = r_currentSpeedX (records w ra) * nx + r_currentSpeedY (records w ra) * ny"
    and "r_currentSpeedX (records w' ra) * (- ny) + r_currentSpeedY (records w' ra) * nx
           = r_currentSpeedX (records w ra) * (- ny) + r_currentSpeedY (records w ra) * nx"
    and "r_currentSpeedX (records w' rb) * (- ny) + r_currentSpeedY (records w' rb) * nx
           = r_currentSpeedX (records w rb) * (- ny) + r_currentSpeedY (records w rb) * nx"
proof -
  have u: "nx * nx + ny * ny = 1"
    using nz unfolding nx_def ny_def centre_distance_def by (rule unit_normal)
  have a: "r_currentSpeedX (records w' ra)
             = (r_currentSpeedX (records w rb) * nx + r_currentSpeedY (records w rb) * ny) * nx
               + (r_currentSpeedX (records w ra) * (- ny) + r_currentSpeedY (records w ra) * nx) * (- ny)"
          "r_currentSpeedY (records w' ra)
             = (r_currentSpeedX (records w rb) * nx + r_currentSpeedY (records w rb) * ny) * ny
               + (r_currentSpeedX (records w ra) * (- ny) + r_currentSpeedY (records w ra) * nx) * nx"
          "r_currentSpeedX (records w' rb)
             = (r_currentSpeedX (records w ra) * nx + r_currentSpeedY (records w ra) * ny) * nx
               + (r_currentSpeedX (records w rb) * (- ny) + r_currentSpeedY (records w rb) * nx) * (- ny)"
          "r_currentSpeedY (records w' rb)
             = (r_currentSpeedX (records w ra) * nx + r_currentSpeedY (records w ra) * ny) * ny
               + (r_currentSpeedX (records w rb) * (- ny) + r_currentSpeedY (records w rb) * nx) * nx"
    using ne ra rb
    by (simp_all add: w'_def nx_def ny_def resolve_def resolve_bounce_def Let_def world_fields)
  show "r_currentSpeedX (records w' ra) * nx + r_currentSpeedY (records w' ra) * ny
           = r_currentSpeedX (records w rb) * nx + r_currentSpeedY (records w rb) * ny"
    unfolding a by (rule exchange_algebra(1)[OF u])
  show "r_currentSpeedX (records w' rb) * nx + r_currentSpeedY (records w' rb) * ny
           = r_currentSpeedX (records w ra) * nx + r_currentSpeedY (records w ra) * ny"
    unfolding a by (rule exchange_algebra(1)[OF u])
  show "r_currentSpeedX (records w' ra) * (- ny) + r_currentSpeedY (records w' ra) * nx
           = r_currentSpeedX (records w ra) * (- ny) + r_currentSpeedY (records w ra) * nx"
    unfolding a by (rule exchange_algebra(2)[OF u])
  show "r_currentSpeedX (records w' rb) * (- ny) + r_currentSpeedY (records w' rb) * nx
           = r_currentSpeedX (records w rb) * (- ny) + r_currentSpeedY (records w rb) * nx"
    unfolding a by (rule exchange_algebra(2)[OF u])
qed

lemma head_on_scene_fields:
  "blocks head_on_scene 0 = circle_block ''a'' 10 0 0"
  "blocks head_on_scene (Suc 0) = circle_block ''b'' 10 25 0"
  "activeBlockAnimations head_on_scene ''a'' = Some 0"
  "activeBlockAnimations head_on_scene ''b'' = Some (Suc 0)"
  "records head_on_scene 0 =
     \<lparr>r_animationFrameId = Suc 0, r_blockId = ''a'', r_blockObject = 0, r_angle = 0,
        r_pps = 50, r_lastTime = 0, r_currentSpeedX = 50, r_currentSpeedY = 0\<rparr>"
  "records head_on_scene (Suc 0) =
     \<lparr>r_animationFrameId = 2, r_blockId = ''b'', r_blockObject = Suc 0, r_angle = 180,
        r_pps = 50, r_lastTime = 0, r_currentSpeedX = - 50, r_currentSpeedY = 0\<rparr>"
  "frames head_on_scene (Suc 0) =
     Some \<lparr>c_blockObject = 0, c_blockId = ''a'', c_boundary = Pass, c_collision = CBounce,
            c_allBlocks = [0, Suc 0], c_currentSpeedX = 50, c_currentSpeedY = 0, c_lastTime = 0,
            c_screenWidth = 200, c_screenHeight = 100, c_animationData = 0\<rparr>"
  "frames head_on_scene 2 =
     Some \<lparr>c_blockObject = Suc 0, c_blockId = ''b'', c_boundary = Pass, c_collision = CBounce,
            c_allBlocks = [0, Suc 0], c_currentSpeedX = - 50, c_currentSpeedY = 0, c_lastTime = 0,
            c_screenWidth = 200, c_screenHeight = 100, c_animationData = Suc 0\<rparr>"
  "nextFrame head_on_scene = 3"
  unfolding head_on_scene_def
  by (simp_all add: start_defs Let_def)

lemmas frame_eval = circle_block_simps tick_defs boundary_pass_def
        positiveModulo_math_mod math_mod_def collide_eval
        geometry_defs world_fields Let_def

lemma head_on_first_run:
  "\<exists>c w. run_frame 1 60 head_on_scene = Done (Some (c, w))
     \<and> blocks w 0 = circle_block ''a'' 10 3 0
     \<and> blocks w (Suc 0) = circle_block ''b'' 10 25 0
     \<and> activeBlockAnimations w ''a'' = Some 0
     \<and> activeBlockAnimations w ''b'' = Some (Suc 0)
     \<and> records w 0 =
         \<lparr>r_animationFrameId = 3, r_blockId = ''a'', r_blockObject = 0, r_angle = 0,
            r_pps = 50, r_lastTime = 0, r_currentSpeedX = 50, r_currentSpeedY = 0\<rparr>
     \<and> records w (Suc 0) =
         \<lparr>r_animationFrameId = 2, r_blockId = ''b'', r_blockObject = Suc 0, r_angle = 180,
            r_pps = 50, r_lastTime = 0, r_currentSpeedX = - 50, r_currentSpeedY = 0\<rparr>
     \<and> frames w 3 =
         Some \<lparr>c_blockObject = 0, c_blockId = ''a'', c_boundary = Pass, c_collision = CBounce,
            c_allBlocks = [0, Suc 0], c_currentSpeedX = 50, c_currentSpeedY = 0, c_lastTime = 60,
            c_screenWidth = 200, c_screenHeight = 100, c_animationData = 0\<rparr>
     \<and> frames w 2 =
         Some \<lparr>c_blockObject = Suc 0, c_blockId = ''b'', c_boundary = Pass, c_collision = CBounce,
            c_allBlocks = [0, Suc 0], c_currentSpeedX = - 50, c_currentSpeedY = 0, c_lastTime = 0,
            c_screenWidth = 200, c_screenHeight = 100, c_animationData = Suc 0\<rparr>
     \<and> nextFrame w = 4"
  by (simp add: head_on_scene_fields frame_eval)

lemma head_on_first_fields:
  "blocks head_on_first 0 = circle_block ''a'' 10 3 0"
  "blocks head_on_first (Suc 0) = circle_block ''b'' 10 25 0"
  "activeBlockAnimations head_on_first ''a'' = Some 0"
  "activeBlockAnimations head_on_first ''b'' = Some (Suc 0)"
  "records head_on_first 0 =
         \<lparr>r_animationFrameId = 3, r_blockId = ''a'', r_blockObject = 0, r_angle = 0,
            r_pps = 50, r_lastTime = 0, r_currentSpeedX = 50, r_currentSpeedY = 0\<rparr>"
  "records head_on_first (Suc 0) =
         \<lparr>r_animationFrameId = 2, r_blockId = ''b'', r_blockObject = Suc 0, r_angle = 180,
            r_pps = 50, r_lastTime = 0, r_currentSpeedX = - 50, r_currentSpeedY = 0\<rparr>"
  "frames head_on_first 3 =
         Some \<lparr>c_blockObject = 0, c_blockId = ''a'', c_boundary = Pass, c_collision = CBounce,
            c_allBlocks = [0, Suc 0], c_currentSpeedX = 50, c_currentSpeedY = 0, c_lastTime = 60,
            c_screenWidth = 200, c_screenHeight = 100, c_animationData = 0\<rparr>"
  "frames head_on_first 2 =
         Some \<lparr>c_blockObject = Suc 0, c_blockId = ''b'', c_boundary = Pass, c_collision = CBounce,
            c_allBlocks = [0, Suc 0], c_currentSpeedX = - 50, c_currentSpeedY = 0, c_lastTime = 0,
            c_screenWidth = 200, c_screenHeight = 100, c_animationData = Suc 0\<rparr>"
  "nextFrame head_on_first = 4"
  using head_on_first_run unfolding head_on_first_def after_frame_def by auto


lemma head_on_contact_run:
  "\<exists>c w. run_frame 2 60 head_on_first = Done (Some (c, w))
     \<and> blocks w 0 = circle_block ''a'' 10 2.5 0
     \<and> blocks w (Suc 0) = circle_block ''b'' 10 22.5 0
     \<and> activeBlockAnimations w ''a'' = Some 0
     \<and> activeBlockAnimations w ''b'' = Some (Suc 0)
     \<and> records w 0 =
         \<lparr>r_animationFrameId = 3, r_blockId = ''a'', r_blockObject = 0, r_angle = 180,
            r_pps = 50, r_lastTime = 0, r_currentSpeedX = - 50, r_currentSpeedY = 0\<rparr>
     \<and> records w (Suc 0) =
         \<lparr>r_animationFrameId = 4, r_blockId = ''b'', r_blockObject = Suc 0, r_angle = 0,
            r_pps = 50, r_lastTime = 0, r_currentSpeedX = 50, r_currentSpeedY = 0\<rparr>
     \<and> frames w 3 =
         Some \<lparr>c_blockObject = 0, c_blockId = ''a'', c_boundary = Pass, c_collision = CBounce,
            c_allBlocks = [0, Suc 0], c_currentSpeedX = 50, c_currentSpeedY = 0, c_lastTime = 60,
            c_screenWidth = 200, c_screenHeight = 100, c_animationData = 0\<rparr>
     \<and> nextFrame w = 5"
  by (simp add: head_on_first_fields frame_eval)

lemma head_on_contact_fields:
  "blocks head_on_contact 0 = circle_block ''a'' 10 2.5 0"
  "blocks head_on_contact (Suc 0) = circle_block ''b'' 10 22.5 0"
  "activeBlockAnimations head_on_contact ''a'' = Some 0"
  "activeBlockAnimations head_on_contact ''b'' = Some (Suc 0)"
  "records head_on_contact 0 =
         \<lparr>r_animationFrameId = 3, r_blockId = ''a'', r_blockObject = 0, r_angle = 180,
            r_pps = 50, r_lastTime = 0, r_currentSpeedX = - 50, r_currentSpeedY = 0\<rparr>"
  "records head_on_contact (Suc 0) =
         \<lparr>r_animationFrameId = 4, r_blockId = ''b'', r_blockObject = Suc 0, r_angle = 0,
            r_pps = 50, r_lastTime = 0, r_currentSpeedX = 50, r_currentSpeedY = 0\<rparr>"
  "frames head_on_contact 3 =
         Some \<lparr>c_blockObject = 0, c_blockId = ''a'', c_boundary = Pass, c_collision = CBounce,
            c_allBlocks = [0, Suc 0], c_currentSpeedX = 50, c_currentSpeedY = 0, c_lastTime = 60,
            c_screenWidth = 200, c_screenHeight = 100, c_animationData = 0\<rparr>"
  "nextFrame head_on_contact = 5"
  using head_on_contact_run unfolding head_on_contact_def after_frame_def by auto

lemma head_on_second_run:
  "\<exists>c w. run_frame 3 120 head_on_contact = Done (Some (c, w))
      \<and> visuals w = visuals head_on_contact
            @ [(''a'', circle_block ''a'' 10 4 0), (''b'', circle_block ''b'' 10 24 0),
               (''a'', circle_block ''a'' 10 4 0)]
      \<and> (\<exists>c'. frames w 5 = Some c' \<and> c_currentSpeedX c' = 50 \<and> c_currentSpeedY c' = 0)"
  by (simp add: head_on_contact_fields frame_eval)

text \<open>
  Claim C1 fails on the code. In the head-on scenario the frame of \<open>b\<close> at 60 ms
  resolves the collision: the records then hold the exchanged velocities, (-50, 0)
  with angle 180 for \<open>a\<close> and (50, 0) with angle 0 for \<open>b\<close>, and \<open>a\<close> is at
  x = 2.5. But the integration step of a tick multiplies the closure variables
  \<open>currentSpeedX\<close> and \<open>currentSpeedY\<close>, which the collision branch never assigns:
  the next frame of \<open>a\<close>, at 120 ms, still has speed (50, 0) in its closure and moves
  \<open>a\<close> to the right, to x = 5.5, into \<open>b\<close> again, so that it is drawn at x = 4
  after a second resolution, where the exchanged velocity would have taken it to
  x = -0.5.
\<close>

theorem bounce_velocities_not_used_by_later_ticks:
  "r_currentSpeedX (records head_on_contact 0) = - 50
   \<and> r_currentSpeedY (records head_on_contact 0) = 0
   \<and> r_angle (records head_on_contact 0) = 180
   \<and> r_currentSpeedX (records head_on_contact 1) = 50
   \<and> r_currentSpeedY (records head_on_contact 1) = 0
   \<and> r_angle (records head_on_contact 1) = 0
   \<and> b_x (blocks head_on_contact 0) = 2.5
   \<and> r_animationFrameId (records head_on_contact 0) = 3
   \<and> ran (run_frame 3 120 head_on_contact)
   \<and> visuals (after_frame 3 120 head_on_contact)
       = visuals head_on_contact
           @ [(''a'', circle_block ''a'' 10 4 0), (''b'', circle_block ''b'' 10 24 0),
              (''a'', circle_block ''a'' 10 4 0)]
   \<and> c_currentSpeedX (the (frames (after_frame 3 120 head_on_contact) 5)) = 50
   \<and> c_currentSpeedY (the (frames (after_frame 3 120 head_on_contact) 5)) = 0"
  using head_on_second_run
  by (auto simp: after_frame_def head_on_contact_fields circle_block_simps)

end
